theory Spec2Isabelle
  imports Complex_Main
begin

section \<open>The accessor layer of aicspylibczi: \<open>CziFile.py\<close>\<close>

text \<open>
  \<open>CziFile\<close> is a thin Python class over the compiled module \<open>_aicspylibczi\<close>. It turns its
  argument into a buffer, constructs the native reader on it, and forwards every query to that
  reader. The native reader, the standard library (\<open>pathlib\<close>, \<open>open\<close>) and \<open>lxml\<close> are not
  part of \<open>CziFile.py\<close>: the native objects are parameters of the model (records of the results
  their methods give), and the library calls are modelled by what their documentation says.

  Every method takes the world (the filesystem, the lxml elements allocated so far, and the log
  of calls made into the compiled module) and returns it updated; an exception is the left
  summand of the result.
\<close>

subsection \<open>Python values\<close>

datatype error =
    FileNotFoundError string
  | IsADirectoryError string
  | NotADirectoryError string
  | PermissionError string
  | OSError string
  | RuntimeError string
  | ValueError string
  | TypeError string
  | AssertionError
  | PylibCZI_CDimCoordinatesOverspecifiedException string
  | XMLSyntaxError string
  | NativeError string

text \<open>\<open>types.PathLike\<close> is \<open>Union[str, Path]\<close>.\<close>

datatype pathlike = Str string | Path string

record ndarray =
  shape :: "nat list"
  pixels :: "int list"

text \<open>
  What a caller can hand to the constructor. Python checks no annotation, so any object may
  arrive; \<open>Object t\<close> is an object of any other type, \<open>t\<close> being what \<open>type(file)\<close> prints.
  A \<open>BytesIO\<close> carries its content, a \<open>BufferedReader\<close> the name of the file it reads and
  the file's content; the flag of both is \<open>closed\<close>, whether the stream has been closed.
\<close>

datatype pyobject =
    PathLike pathlike
  | Bytes string
  | BytesIO string bool
  | BufferedReader string string bool
  | Ndarray ndarray
  | Object string

text \<open>Truth value of a \<open>PathLike\<close>: a \<open>str\<close> is true when it is not empty, a \<open>Path\<close> always.\<close>

fun truthy :: "pathlike \<Rightarrow> bool" where
  "truthy (Str s) = (s \<noteq> [])"
| "truthy (Path p) = True"

fun path_of :: "pathlike \<Rightarrow> string" where
  "path_of (Str s) = s"
| "path_of (Path p) = p"



subsection \<open>The filesystem\<close>

text \<open>
  \<open>resolve\<close> is what \<open>Path(p).expanduser().resolve(strict=True)\<close> returns or raises on a path:
  \<open>FileNotFoundError\<close> when the path does not exist, \<open>NotADirectoryError\<close> when it runs
  through a regular file, \<open>RuntimeError\<close> when the user of \<open>~user\<close> is unknown,
  \<open>ValueError\<close> for a null byte, \<open>OSError\<close> or \<open>RuntimeError\<close> for a loop of symbolic links,
  \<open>OSError\<close> for a name that is too long. \<open>node\<close> is what exists at a path. \<open>read_error\<close>
  and \<open>write_error\<close> are the errors, if any, that keep the process from opening an
  existing file for reading and a path for writing (permissions, limits of the system).
\<close>

datatype fs_node = Directory | File string

record filesystem =
  resolve :: "string \<Rightarrow> error + string"
  node :: "string \<rightharpoonup> fs_node"
  read_error :: "string \<Rightarrow> error option"
  write_error :: "string \<Rightarrow> error option"

definition is_dir :: "filesystem \<Rightarrow> string \<Rightarrow> bool" where
  "is_dir fsys f = (node fsys f = Some Directory)"

text \<open>\<open>open(f, "rb")\<close>: a new reader, open.\<close>

definition open_rb :: "filesystem \<Rightarrow> string \<Rightarrow> error + pyobject" where
  "open_rb fsys f =
     (case node fsys f of
        None \<Rightarrow> Inl (FileNotFoundError f)
      | Some Directory \<Rightarrow> Inl (IsADirectoryError f)
      | Some (File data) \<Rightarrow>
          (case read_error fsys f of
             Some e \<Rightarrow> Inl e
           | None \<Rightarrow> Inr (BufferedReader f data False)))"

text \<open>
  \<open>posixpath.dirname\<close>: the path up to its last slash, without trailing slashes unless it
  consists of slashes only.
\<close>

definition dirname :: "string \<Rightarrow> string" where
  "dirname p =
     (let head = rev (dropWhile (\<lambda>c. c \<noteq> CHR ''/'') (rev p))
      in if head \<noteq> [] \<and> \<not> list_all (\<lambda>c. c = CHR ''/'') head
         then rev (dropWhile (\<lambda>c. c = CHR ''/'') (rev head))
         else head)"

text \<open>
  \<open>with open(f, 'w') as file: file.write(s)\<close>. The file is created or truncated in its
  parent directory, which must exist (a path without a slash is in the current directory,
  \<open>.\<close>); \<open>open\<close> raises \<open>FileNotFoundError\<close> when the parent is missing,
  \<open>NotADirectoryError\<close> when it is a regular file, \<open>IsADirectoryError\<close> when the path is a
  directory.
\<close>

definition write_text :: "filesystem \<Rightarrow> string \<Rightarrow> string \<Rightarrow> error + filesystem" where
  "write_text fsys f s =
     (let parent = (if dirname f = [] then ''.'' else dirname f)
      in case node fsys parent of
           None \<Rightarrow> Inl (FileNotFoundError f)
         | Some (File data) \<Rightarrow> Inl (NotADirectoryError f)
         | Some Directory \<Rightarrow>
             if node fsys f = Some Directory then Inl (IsADirectoryError f)
             else (case write_error fsys f of
                     Some e \<Rightarrow> Inl e
                   | None \<Rightarrow> Inr (fsys\<lparr>node := (node fsys)(f \<mapsto> File s)\<rparr>)))"

subsection \<open>The compiled module\<close>

text \<open>\<open>libCZI::IntRect\<close>, with its fields \<open>x\<close>, \<open>y\<close>, \<open>w\<close>, \<open>h\<close>.\<close>

record IntRect =
  rect_x :: int
  rect_y :: int
  rect_w :: int
  rect_h :: int

text \<open>
  Modelled from the spec: \<open>DimCoord\<close>, the dimension coordinate of the compiled module, is not
  among the sources. The spec describes it as a sparse mapping from axis symbols to signed
  integer indices, constructed empty, with \<open>set(axis, value)\<close>.
\<close>

type_synonym DimCoord = "(string \<times> int) list"

definition DimCoord :: DimCoord where
  "DimCoord = []"

fun set_dim :: "DimCoord \<Rightarrow> string \<Rightarrow> int \<Rightarrow> DimCoord" where
  "set_dim [] k v = [(k, v)]"
| "set_dim ((k', v') # d) k v = (if k' = k then (k, v) # d else (k', v') # set_dim d k v)"

text \<open>
  The native reader object. Its methods are compiled code outside \<open>CziFile.py\<close>; the record
  holds what each of them returns (or raises) on this container.
\<close>

record Reader =
  reader_is_mosaic :: bool
  reader_read_scene_wh :: "int \<Rightarrow> error + IntRect"
  reader_mosaic_shape :: "error + IntRect"
  reader_read_meta :: "error + string"
  reader_read_meta_from_subblock :: "DimCoord \<Rightarrow> int \<Rightarrow> error + string list"
  reader_read_selected :: "DimCoord \<Rightarrow> int \<Rightarrow> error + (ndarray \<times> (string \<times> nat) list)"
  reader_read_mosaic :: "DimCoord \<Rightarrow> real \<Rightarrow> IntRect \<Rightarrow> error + ndarray"

text \<open>
  The module \<open>_aicspylibczi\<close>: the constructor of the reader, and the rectangle that
  \<open>IntRect()\<close> constructs.
\<close>

record czilib =
  new_Reader :: "pyobject \<Rightarrow> error + Reader"
  new_IntRect :: IntRect

text \<open>The calls into the compiled module, in the order they are made.\<close>

datatype call =
    Import_aicspylibczi
  | Call_Reader pyobject
  | Call_DimCoord
  | Call_set_dim string int
  | Call_IntRect
  | Call_is_mosaic
  | Call_read_scene_wh int
  | Call_mosaic_shape
  | Call_read_meta
  | Call_read_meta_from_subblock DimCoord int
  | Call_read_selected DimCoord int
  | Call_read_mosaic DimCoord real IntRect

fun is_reader_call :: "call \<Rightarrow> bool" where
  "is_reader_call Import_aicspylibczi = False"
| "is_reader_call (Call_Reader b) = True"
| "is_reader_call Call_DimCoord = False"
| "is_reader_call (Call_set_dim k v) = False"
| "is_reader_call Call_IntRect = False"
| "is_reader_call c = True"

subsection \<open>lxml\<close>

text \<open>
  An lxml element. \<open>etree.fromstring\<close> and \<open>etree.tostring(_, pretty_print=True)\<close> are
  parameters. The truth value of an element is whether it has children (lxml's
  \<open>_Element.__bool__\<close>, which warns that \<open>len(elem)\<close> or \<open>elem is not None\<close> should be
  written instead).
\<close>

datatype xml = Element (tag: string) (elem_text: string) (children: "xml list") (elem_tail: string)

record etree =
  fromstring :: "string \<Rightarrow> error + xml"
  tostring :: "xml \<Rightarrow> string"

subsection \<open>The world\<close>

record world =
  fs :: filesystem
  heap :: "xml list"
  calls :: "call list"

definition native :: "call \<Rightarrow> world \<Rightarrow> world" where
  "native c w = w\<lparr>calls := calls w @ [c]\<rparr>"

text \<open>A reference to an element is its index in the heap; \<open>alloc\<close> makes a new object.\<close>

definition alloc :: "xml \<Rightarrow> world \<Rightarrow> nat \<times> world" where
  "alloc d w = (length (heap w), w\<lparr>heap := heap w @ [d]\<rparr>)"

definition deref :: "world \<Rightarrow> nat \<Rightarrow> xml option" where
  "deref w a = (if a < length (heap w) then Some (heap w ! a) else None)"

text \<open>\<open>bool(self.meta_root)\<close>: \<open>None\<close> is false, an element is true when it has children.\<close>

definition truth_of :: "world \<Rightarrow> nat option \<Rightarrow> bool" where
  "truth_of w r =
     (case r of
        None \<Rightarrow> False
      | Some a \<Rightarrow> (case deref w a of None \<Rightarrow> False | Some d \<Rightarrow> children d \<noteq> []))"

subsection \<open>The class \<open>CziFile\<close>\<close>

definition ZISRAW_DIMS :: "string set" where
  "ZISRAW_DIMS = {''Z'', ''C'', ''T'', ''R'', ''S'', ''I'', ''H'', ''V'', ''B''}"

text \<open>
  The attributes of an instance; \<open>czi_bytes\<close> is \<open>self._bytes\<close>. \<open>meta_root\<close> is \<open>None\<close> or a
  reference to an element.
\<close>

record CziFile =
  czi_bytes :: pyobject
  czi_filename :: "string option"
  metafile_out :: pathlike
  czifile_verbose :: bool
  czilib :: czilib
  reader :: Reader
  meta_root :: "nat option"

text \<open>
  Keyword arguments, in the order the caller wrote them, with integer values.
  \<open>'M' in kwargs\<close> and \<open>kwargs.get('M')\<close> are \<open>map_of kwargs ''M''\<close>.
\<close>

type_synonym kwargs = "(string \<times> int) list"

fun convert_to_buffer :: "filesystem \<Rightarrow> pyobject \<Rightarrow> error + pyobject" where
  "convert_to_buffer fsys (PathLike file) =
     (case resolve fsys (path_of file) of
        Inl e \<Rightarrow> Inl e
      | Inr f \<Rightarrow> if is_dir fsys f then Inl (IsADirectoryError f) else open_rb fsys f)"
| "convert_to_buffer fsys (Bytes b) = Inr (BytesIO b False)"
| "convert_to_buffer fsys (BytesIO b is_closed) = Inr (BytesIO b is_closed)"
| "convert_to_buffer fsys (BufferedReader f b is_closed) = Inr (BufferedReader f b is_closed)"
| "convert_to_buffer fsys (Ndarray a) = Inr (Ndarray a)"
| "convert_to_buffer fsys (Object t) =
     Inl (TypeError
       (''Reader only accepts types: [str, pathlib.Path, bytes, io.BytesIO], received: '' @ t))"

text \<open>
  \<open>__init__\<close>. \<open>lib\<close> is the module that \<open>import _aicspylibczi\<close> binds; the import and the
  construction of the reader come after \<open>convert_to_buffer\<close> has returned.
\<close>

definition init ::
  "czilib \<Rightarrow> pyobject \<Rightarrow> pathlike \<Rightarrow> bool \<Rightarrow> world \<Rightarrow> (error + CziFile) \<times> world" where
  "init lib file metafile verbose w =
     (case convert_to_buffer (fs w) file of
        Inl e \<Rightarrow> (Inl e, w)
      | Inr b \<Rightarrow>
          (let w1 = native Import_aicspylibczi w;
               w2 = native (Call_Reader b) w1
           in case new_Reader lib b of
                Inl e \<Rightarrow> (Inl e, w2)
              | Inr r \<Rightarrow>
                  (Inr \<lparr>czi_bytes = b, czi_filename = None, metafile_out = metafile,
                        czifile_verbose = verbose, czilib = lib, reader = r,
                        meta_root = None\<rparr>, w2)))"

text \<open>\<open>index: int = -1\<close>: an omitted index is \<open>-1\<close>.\<close>

definition scene_bounding_box ::
  "CziFile \<Rightarrow> int option \<Rightarrow> world \<Rightarrow> (error + int \<times> int \<times> int \<times> int) \<times> world" where
  "scene_bounding_box self index w =
     (let i = (case index of None \<Rightarrow> - 1 | Some i \<Rightarrow> i);
          w1 = native (Call_read_scene_wh i) w
      in case reader_read_scene_wh (reader self) i of
           Inl e \<Rightarrow> (Inl e, w1)
         | Inr bbox \<Rightarrow> (Inr (rect_x bbox, rect_y bbox, rect_w bbox, rect_h bbox), w1))"

definition scene_height_by_width ::
  "CziFile \<Rightarrow> int option \<Rightarrow> world \<Rightarrow> (error + int \<times> int) \<times> world" where
  "scene_height_by_width self index w =
     (let i = (case index of None \<Rightarrow> - 1 | Some i \<Rightarrow> i);
          w1 = native (Call_read_scene_wh i) w
      in case reader_read_scene_wh (reader self) i of
           Inl e \<Rightarrow> (Inl e, w1)
         | Inr box \<Rightarrow> (Inr (rect_h box, rect_w box), w1))"

definition is_mosaic :: "CziFile \<Rightarrow> world \<Rightarrow> bool \<times> world" where
  "is_mosaic self w = (reader_is_mosaic (reader self), native Call_is_mosaic w)"

text \<open>
  The property \<open>meta\<close>, in its two steps: the first \<open>if\<close> reads and parses when
  \<open>self.meta_root\<close> is false, the second writes the export file when \<open>self.metafile_out\<close> is
  true. The result is \<open>self.meta_root\<close>. (\<open>etree.tostring(None)\<close> raises \<open>TypeError\<close>; after
  the first step \<open>self.meta_root\<close> is an element.)
\<close>

definition meta_load :: "etree \<Rightarrow> CziFile \<Rightarrow> world \<Rightarrow> (error + unit) \<times> CziFile \<times> world" where
  "meta_load lx self w =
     (if \<not> truth_of w (meta_root self) then
        (let w1 = native Call_read_meta w
         in case reader_read_meta (reader self) of
              Inl e \<Rightarrow> (Inl e, self, w1)
            | Inr meta_str \<Rightarrow>
                (case fromstring lx meta_str of
                   Inl e \<Rightarrow> (Inl e, self, w1)
                 | Inr doc \<Rightarrow>
                     (let (a, w2) = alloc doc w1
                      in (Inr (), self\<lparr>meta_root := Some a\<rparr>, w2))))
      else (Inr (), self, w))"

definition meta_export :: "etree \<Rightarrow> CziFile \<Rightarrow> world \<Rightarrow> (error + unit) \<times> world" where
  "meta_export lx self w =
     (if truthy (metafile_out self) then
        (case meta_root self of
           None \<Rightarrow> (Inl (TypeError ''NoneType''), w)
         | Some a \<Rightarrow>
             (case deref w a of
                None \<Rightarrow> (Inl (TypeError ''NoneType''), w)
              | Some d \<Rightarrow>
                  (let metastr = tostring lx d
                   in case write_text (fs w) (path_of (metafile_out self)) metastr of
                        Inl e \<Rightarrow> (Inl e, w)
                      | Inr fs' \<Rightarrow> (Inr (), w\<lparr>fs := fs'\<rparr>))))
      else (Inr (), w))"

definition meta :: "etree \<Rightarrow> CziFile \<Rightarrow> world \<Rightarrow> (error + nat option) \<times> CziFile \<times> world" where
  "meta lx self w =
     (case meta_load lx self w of
        (Inl e, self1, w1) \<Rightarrow> (Inl e, self1, w1)
      | (Inr u, self1, w1) \<Rightarrow>
          (case meta_export lx self1 w1 of
             (Inl e, w2) \<Rightarrow> (Inl e, self1, w2)
           | (Inr u, w2) \<Rightarrow> (Inr (meta_root self1), self1, w2)))"

text \<open>
  The comprehension
  \<open>[plane_constraints.set_dim(k, v) for (k, v) in kwargs.items() if k in CziFile.ZISRAW_DIMS]\<close>.
\<close>

fun set_dims :: "kwargs \<Rightarrow> DimCoord \<Rightarrow> world \<Rightarrow> DimCoord \<times> world" where
  "set_dims [] plane_constraints w = (plane_constraints, w)"
| "set_dims ((k, v) # items) plane_constraints w =
     (if k \<in> ZISRAW_DIMS
      then set_dims items (set_dim plane_constraints k v) (native (Call_set_dim k v) w)
      else set_dims items plane_constraints w)"

definition get_m_index_from_kwargs ::
  "CziFile \<Rightarrow> kwargs \<Rightarrow> world \<Rightarrow> (error + int) \<times> world" where
  "get_m_index_from_kwargs self kwargs w =
     (case map_of kwargs ''M'' of
        None \<Rightarrow> (Inr (- 1), w)
      | Some m \<Rightarrow>
          (let (mosaic, w1) = is_mosaic self w
           in if \<not> mosaic
              then (Inl (PylibCZI_CDimCoordinatesOverspecifiedException
                     ''M Dimension is specified but the file is not a mosaic file!''), w1)
              else (Inr m, w1)))"

definition read_subblock_metadata ::
  "CziFile \<Rightarrow> kwargs \<Rightarrow> world \<Rightarrow> (error + string list) \<times> world" where
  "read_subblock_metadata self kwargs w =
     (let (plane_constraints, w1) = set_dims kwargs DimCoord (native Call_DimCoord w)
      in case get_m_index_from_kwargs self kwargs w1 of
           (Inl e, w2) \<Rightarrow> (Inl e, w2)
         | (Inr m_index, w2) \<Rightarrow>
             (reader_read_meta_from_subblock (reader self) plane_constraints m_index,
              native (Call_read_meta_from_subblock plane_constraints m_index) w2))"

definition read_image ::
  "CziFile \<Rightarrow> kwargs \<Rightarrow> world \<Rightarrow> (error + ndarray \<times> (string \<times> nat) list) \<times> world" where
  "read_image self kwargs w =
     (let (plane_constraints, w1) = set_dims kwargs DimCoord (native Call_DimCoord w)
      in case get_m_index_from_kwargs self kwargs w1 of
           (Inl e, w2) \<Rightarrow> (Inl e, w2)
         | (Inr m_index, w2) \<Rightarrow>
             (reader_read_selected (reader self) plane_constraints m_index,
              native (Call_read_selected plane_constraints m_index) w2))"

definition read_mosaic_size :: "CziFile \<Rightarrow> world \<Rightarrow> (error + IntRect) \<times> world" where
  "read_mosaic_size self w =
     (let w1 = native Call_is_mosaic w
      in if \<not> reader_is_mosaic (reader self) then
           (let ans = new_IntRect (czilib self);
                w2 = native Call_IntRect w1;
                ans = ans\<lparr>rect_x := 0, rect_y := 0\<rparr>;
                ans = ans\<lparr>rect_w := - 1, rect_h := - 1\<rparr>
            in (Inr ans, w2))
         else (reader_mosaic_shape (reader self), native Call_mosaic_shape w1))"

text \<open>
  The \<open>if region is None\<close> statement of \<open>read_mosaic\<close>. The \<open>assert\<close> is modelled as the
  interpreter runs it by default (without \<open>-O\<close>).
\<close>

definition mosaic_region ::
  "CziFile \<Rightarrow> int list option \<Rightarrow> world \<Rightarrow> (error + IntRect) \<times> world" where
  "mosaic_region self region w =
     (case region of
        None \<Rightarrow>
          (let region = new_IntRect (czilib self);
               w1 = native Call_IntRect w;
               region = region\<lparr>rect_w := - 1\<rparr>;
               region = region\<lparr>rect_h := - 1\<rparr>
           in (Inr region, w1))
      | Some region \<Rightarrow>
          if length region \<noteq> 4 then (Inl AssertionError, w)
          else
            (let tmp = new_IntRect (czilib self);
                 w1 = native Call_IntRect w;
                 tmp = tmp\<lparr>rect_x := region ! 0\<rparr>;
                 tmp = tmp\<lparr>rect_y := region ! 1\<rparr>;
                 tmp = tmp\<lparr>rect_w := region ! 2\<rparr>;
                 tmp = tmp\<lparr>rect_h := region ! 3\<rparr>
             in (Inr tmp, w1)))"

text \<open>
  \<open>region: Tuple = None, scale_factor: float = 0.1\<close>: an omitted scale factor is \<open>0.1\<close>.
  The layer computes nothing with the scale factor, it hands it to the native reader; it is
  modelled as a real number, and the literal \<open>0.1\<close> as one tenth.
\<close>

definition read_mosaic ::
  "CziFile \<Rightarrow> int list option \<Rightarrow> real option \<Rightarrow> kwargs \<Rightarrow> world \<Rightarrow> (error + ndarray) \<times> world" where
  "read_mosaic self region scale_factor kwargs w =
     (let sf = (case scale_factor of None \<Rightarrow> 0.1 | Some s \<Rightarrow> s);
          (plane_constraints, w1) = set_dims kwargs DimCoord (native Call_DimCoord w)
      in case mosaic_region self region w1 of
           (Inl e, w2) \<Rightarrow> (Inl e, w2)
         | (Inr rect, w2) \<Rightarrow>
             (reader_read_mosaic (reader self) plane_constraints sf rect,
              native (Call_read_mosaic plane_constraints sf rect) w2))"

text \<open>The calls made between two worlds.\<close>

definition new_calls :: "world \<Rightarrow> world \<Rightarrow> call list" where
  "new_calls w w' = drop (length (calls w)) (calls w')"


subsection \<open>An example filesystem and container\<close>

text \<open>
  A directory \<open>/data\<close> with one file; a container that is not a mosaic, with one scene and
  metadata \<open><ImageDocument/>\<close>; the same container as a mosaic.
\<close>

definition example_fs :: filesystem where
  "example_fs =
     \<lparr>resolve = (\<lambda>p.
        if p = ''/data'' \<or> p = ''/data/a.czi'' then Inr p
        else if p = ''/data/a.czi/x'' then Inl (NotADirectoryError p)
        else if p = ''~nobody/a.czi'' then Inl (RuntimeError ''nobody'')
        else Inl (FileNotFoundError p)),
      node = [''/data'' \<mapsto> Directory, ''/data/a.czi'' \<mapsto> File ''ZISRAWFILE''],
      read_error = (\<lambda>p. None),
      write_error = (\<lambda>p. None)\<rparr>"

definition world0 :: world where
  "world0 = \<lparr>fs = example_fs, heap = [], calls = []\<rparr>"

definition plain_reader :: Reader where
  "plain_reader =
     \<lparr>reader_is_mosaic = False,
      reader_read_scene_wh =
        (\<lambda>i. if i = - 1 \<or> i = 0
             then Inr \<lparr>rect_x = 10, rect_y = 20, rect_w = 475, rect_h = 325\<rparr>
             else Inl (NativeError ''scene'')),
      reader_mosaic_shape = Inl (NativeError ''mosaic''),
      reader_read_meta = Inr ''<ImageDocument/>'',
      reader_read_meta_from_subblock = (\<lambda>pc m. Inr [''<METADATA/>'']),
      reader_read_selected =
        (\<lambda>pc m. Inr (\<lparr>shape = [1, 1], pixels = [7]\<rparr>, [(''Y'', 1), (''X'', 1)])),
      reader_read_mosaic = (\<lambda>pc sf r. Inr \<lparr>shape = [1, 1, 1], pixels = [7]\<rparr>)\<rparr>"

definition example_lib :: czilib where
  "example_lib =
     \<lparr>new_Reader = (\<lambda>b. Inr plain_reader),
      new_IntRect = \<lparr>rect_x = 0, rect_y = 0, rect_w = 0, rect_h = 0\<rparr>\<rparr>"

definition plain_czi :: CziFile where
  "plain_czi =
     \<lparr>czi_bytes = BytesIO ''ZISRAWFILE'' False, czi_filename = None, metafile_out = Str [],
      czifile_verbose = False, czilib = example_lib, reader = plain_reader, meta_root = None\<rparr>"

definition mosaic_czi :: CziFile where
  "mosaic_czi =
     plain_czi\<lparr>reader := plain_reader\<lparr>reader_is_mosaic := True,
        reader_mosaic_shape := Inr \<lparr>rect_x = 0, rect_y = 0, rect_w = 2000, rect_h = 1000\<rparr>\<rparr>\<rparr>"


subsection \<open>Example documents and containers\<close>

text \<open>
  \<open>example_etree\<close> stands for lxml on the documents of the examples: it parses the two
  metadata strings, and prints a document with children as \<open>pretty_text\<close>.
\<close>

definition pretty_text :: string where
  "pretty_text = ''<ImageDocument>'' @ [CHR 0x0A] @ ''  <Metadata/>'' @ [CHR 0x0A]
                     @ ''</ImageDocument>'' @ [CHR 0x0A]"

definition example_etree :: etree where
  "example_etree =
     \<lparr>fromstring = (\<lambda>s.
        if s = ''<ImageDocument/>'' then Inr (Element ''ImageDocument'' [] [] [])
        else if s = ''<ImageDocument><Metadata/></ImageDocument>''
          then Inr (Element ''ImageDocument'' [] [Element ''Metadata'' [] [] []] [])
        else Inl (XMLSyntaxError s)),
      tostring = (\<lambda>d.
        if children d = [] then ''<'' @ tag d @ ''/>'' @ [CHR 0x0A]
        else pretty_text)\<rparr>"

text \<open>A container with a metadata child element and an export path.\<close>

definition documented_czi :: CziFile where
  "documented_czi =
     plain_czi\<lparr>metafile_out := Str ''/data/meta.xml'',
       reader := plain_reader\<lparr>reader_read_meta :=
         Inr ''<ImageDocument><Metadata/></ImageDocument>''\<rparr>\<rparr>"

subsection \<open>The mosaic compositor of the spec\<close>

text \<open>
  Modelled from the spec: the native \<open>read_mosaic\<close> of the reader (the Mosaic Compositor,
  section 4.5) is compiled code that is not among the sources. The spec gives it a dimension
  coordinate, a destination rectangle that defaults to the full mosaic bounding box, and a
  scale factor; the output is one array of shape \<open>(1, scaled_height, scaled_width)\<close>, the
  output dimensions being the native dimensions times the factor; it fails when more than one
  value remains free among the non-spatial axes. The bounding box, the test for a free axis,
  the rounding of a scaled length to a number of pixels (\<open>extent\<close>) and the pixels
  (\<open>composite\<close>) are what the spec leaves to the container and the resampling policy. The
  undefined rectangle (width and height \<open>-1\<close>) stands for the default destination.
\<close>

record mosaic_spec =
  full_bbox :: IntRect
  ambiguous :: "DimCoord \<Rightarrow> bool"
  extent :: "real \<Rightarrow> nat"
  composite :: "DimCoord \<Rightarrow> real \<Rightarrow> IntRect \<Rightarrow> int list"

definition spec_read_mosaic :: "mosaic_spec \<Rightarrow> DimCoord \<Rightarrow> real \<Rightarrow> IntRect \<Rightarrow> error + ndarray" where
  "spec_read_mosaic m plane scale region =
     (if ambiguous m plane then Inl (NativeError ''AmbiguousMosaicQueryError'')
      else
        (let dest = (if rect_w region = - 1 \<and> rect_h region = - 1 then full_bbox m else region);
             scaled_height = extent m (real_of_int (rect_h dest) * scale);
             scaled_width = extent m (real_of_int (rect_w dest) * scale)
         in Inr \<lparr>shape = [1, scaled_height, scaled_width],
                 pixels = composite m plane scale dest\<rparr>))"

text \<open>The mosaic of the spec's scenario: bounding box \<open>(0, 0, 2000, 1000)\<close>, rounding down.\<close>

definition example_mosaic :: mosaic_spec where
  "example_mosaic =
     \<lparr>full_bbox = \<lparr>rect_x = 0, rect_y = 0, rect_w = 2000, rect_h = 1000\<rparr>,
      ambiguous = (\<lambda>plane. map_of plane ''C'' = None),
      extent = (\<lambda>r. nat \<lfloor>r\<rfloor>),
      composite = (\<lambda>plane scale dest. [])\<rparr>"

definition tiled_czi :: CziFile where
  "tiled_czi =
     plain_czi\<lparr>reader := plain_reader\<lparr>reader_is_mosaic := True,
        reader_mosaic_shape := Inr (full_bbox example_mosaic),
        reader_read_mosaic := spec_read_mosaic example_mosaic\<rparr>\<rparr>"

text \<open>A container that is not a mosaic, whose native \<open>read_mosaic\<close> refuses it.\<close>

definition refusing_czi :: CziFile where
  "refusing_czi =
     plain_czi\<lparr>reader := plain_reader\<lparr>reader_read_mosaic :=
        (\<lambda>plane scale region. Inl (NativeError ''not a mosaic''))\<rparr>\<rparr>"



section \<open>Properties\<close>

subsection \<open>Bookkeeping of the world\<close>

lemma calls_native [simp]: "calls (native c w) = calls w @ [c]"
  by (simp add: native_def)

lemma fs_native [simp]: "fs (native c w) = fs w"
  by (simp add: native_def)

lemma heap_native [simp]: "heap (native c w) = heap w"
  by (simp add: native_def)

lemma set_dims_calls:
  "calls (snd (set_dims kwargs pc w)) =
     calls w @ map (\<lambda>(k, v). Call_set_dim k v) (filter (\<lambda>(k, v). k \<in> ZISRAW_DIMS) kwargs)"
  by (induction kwargs arbitrary: pc w) auto

lemma set_dims_drop_unknown:
  "k \<notin> ZISRAW_DIMS \<Longrightarrow> set_dims (xs @ (k, v) # ys) pc w = set_dims (xs @ ys) pc w"
  by (induction xs arbitrary: pc w) auto

lemma map_of_drop_other:
  "k \<noteq> k' \<Longrightarrow> map_of (xs @ (k, v) # ys) k' = map_of (xs @ ys) k'"
  by (induction xs) auto

lemma M_not_dim: "''M'' \<notin> ZISRAW_DIMS"
  by (simp add: ZISRAW_DIMS_def)

lemma set_dims_without_M:
  "set_dims (filter (\<lambda>(k, v). k \<noteq> ''M'') kwargs) pc w = set_dims kwargs pc w"
  using M_not_dim by (induction kwargs arbitrary: pc w) auto

subsection \<open>The tile index on a container that is not a mosaic\<close>

text \<open>
  Claim C1, as stated, fails for \<open>read_mosaic\<close>: it never looks at \<open>M\<close>. On a container
  that is not a mosaic the keyword changes nothing: the call returns what the native reader
  returns for the same call without \<open>M\<close>, be it an image or an error of the reader's own.
\<close>

theorem tile_index_read_mosaic_counterexample:
  "\<not> reader_is_mosaic (reader plain_czi) \<and>
   fst (read_mosaic plain_czi None None [(''M'', 0)] world0) =
     Inr \<lparr>shape = [1, 1, 1], pixels = [7]\<rparr> \<and>
   read_mosaic plain_czi None None [(''M'', 0)] world0 =
     read_mosaic plain_czi None None [] world0 \<and>
   \<not> reader_is_mosaic (reader refusing_czi) \<and>
   fst (read_mosaic refusing_czi None None [(''M'', 0)] world0) =
     Inl (NativeError ''not a mosaic'')"
  by (simp add: read_mosaic_def mosaic_region_def ZISRAW_DIMS_def plain_czi_def
      refusing_czi_def plain_reader_def Let_def split: prod.splits)

text \<open>
  Claim C1, amended. On a container that is not a mosaic, \<open>read_image\<close> and
  \<open>read_subblock_metadata\<close> called with \<open>M\<close> raise
  \<open>PylibCZI_CDimCoordinatesOverspecifiedException\<close>. \<open>read_mosaic\<close> takes no tile index:
  \<open>M\<close> is not among \<open>ZISRAW_DIMS\<close>, and the call is the call without \<open>M\<close>.
\<close>

theorem tile_index_on_non_mosaic:
  assumes "\<not> reader_is_mosaic (reader self)" and "map_of kwargs ''M'' = Some m"
  shows "fst (read_image self kwargs w) =
           Inl (PylibCZI_CDimCoordinatesOverspecifiedException
                 ''M Dimension is specified but the file is not a mosaic file!'') \<and>
         fst (read_subblock_metadata self kwargs w) =
           Inl (PylibCZI_CDimCoordinatesOverspecifiedException
                 ''M Dimension is specified but the file is not a mosaic file!'') \<and>
         read_mosaic self region scale_factor kwargs w =
           read_mosaic self region scale_factor (filter (\<lambda>(k, v). k \<noteq> ''M'') kwargs) w"
proof -
  have g: "fst (get_m_index_from_kwargs self kwargs w') =
      Inl (PylibCZI_CDimCoordinatesOverspecifiedException
            ''M Dimension is specified but the file is not a mosaic file!'')" for w'
    using assms by (simp add: get_m_index_from_kwargs_def is_mosaic_def)
  obtain plane w1 where d: "set_dims kwargs DimCoord (native Call_DimCoord w) = (plane, w1)"
    by (cases "set_dims kwargs DimCoord (native Call_DimCoord w)")
  obtain w2 where h: "get_m_index_from_kwargs self kwargs w1 =
      (Inl (PylibCZI_CDimCoordinatesOverspecifiedException
            ''M Dimension is specified but the file is not a mosaic file!''), w2)"
    using g [of w1] by (cases "get_m_index_from_kwargs self kwargs w1") simp
  have i: "fst (read_image self kwargs w) =
      Inl (PylibCZI_CDimCoordinatesOverspecifiedException
            ''M Dimension is specified but the file is not a mosaic file!'')"
    by (simp add: read_image_def d h)
  have s: "fst (read_subblock_metadata self kwargs w) =
      Inl (PylibCZI_CDimCoordinatesOverspecifiedException
            ''M Dimension is specified but the file is not a mosaic file!'')"
    by (simp add: read_subblock_metadata_def d h)
  have r: "read_mosaic self region scale_factor kwargs w =
           read_mosaic self region scale_factor (filter (\<lambda>(k, v). k \<noteq> ''M'') kwargs) w"
    unfolding read_mosaic_def set_dims_without_M ..
  from i s r show ?thesis by simp
qed

theorem tile_index_on_non_mosaic_witness:
  "\<not> reader_is_mosaic (reader plain_czi) \<and> map_of [(''C'', 1), (''M'', 0)] ''M'' = Some 0 \<and>
   read_image plain_czi [(''C'', 1), (''M'', 0)] world0 =
     (Inl (PylibCZI_CDimCoordinatesOverspecifiedException
            ''M Dimension is specified but the file is not a mosaic file!''),
      world0\<lparr>calls := [Call_DimCoord, Call_set_dim ''C'' 1, Call_is_mosaic]\<rparr>) \<and>
   fst (read_subblock_metadata plain_czi [(''C'', 1), (''M'', 0)] world0) =
     Inl (PylibCZI_CDimCoordinatesOverspecifiedException
            ''M Dimension is specified but the file is not a mosaic file!'') \<and>
   read_mosaic plain_czi None None [(''C'', 1), (''M'', 0)] world0 =
     read_mosaic plain_czi None None [(''C'', 1)] world0"
proof -
  have a: "\<not> reader_is_mosaic (reader plain_czi)"
    by (simp add: plain_czi_def plain_reader_def)
  have b: "map_of [(''C'', 1), (''M'', 0)] ''M'' = Some (0::int)"
    by simp
  have c: "snd (read_image plain_czi [(''C'', 1), (''M'', 0)] world0) =
      world0\<lparr>calls := [Call_DimCoord, Call_set_dim ''C'' 1, Call_is_mosaic]\<rparr>"
    by (simp add: read_image_def get_m_index_from_kwargs_def is_mosaic_def a ZISRAW_DIMS_def
        native_def world0_def)
  show ?thesis
    using a b c tile_index_on_non_mosaic [OF a b, of world0 None None]
    by (simp add: prod_eq_iff)
qed

subsection \<open>The size of the mosaic\<close>

text \<open>
  Claim C2. On a container that is not a mosaic, \<open>read_mosaic_size\<close> returns the rectangle
  \<open>(x, y, w, h) = (0, 0, -1, -1)\<close> and raises nothing; on a mosaic it returns what the native
  \<open>mosaic_shape\<close> returns.
\<close>

theorem read_mosaic_size_sentinel:
  "(\<not> reader_is_mosaic (reader self) \<longrightarrow>
      fst (read_mosaic_size self w) =
        Inr \<lparr>rect_x = 0, rect_y = 0, rect_w = - 1, rect_h = - 1\<rparr>) \<and>
   (reader_is_mosaic (reader self) \<longrightarrow>
      fst (read_mosaic_size self w) = reader_mosaic_shape (reader self))"
  by (simp add: read_mosaic_size_def Let_def)

theorem read_mosaic_size_sentinel_witness:
  "\<not> reader_is_mosaic (reader plain_czi) \<and>
   fst (read_mosaic_size plain_czi world0) =
     Inr \<lparr>rect_x = 0, rect_y = 0, rect_w = - 1, rect_h = - 1\<rparr> \<and>
   reader_is_mosaic (reader mosaic_czi) \<and>
   fst (read_mosaic_size mosaic_czi world0) =
     Inr \<lparr>rect_x = 0, rect_y = 0, rect_w = 2000, rect_h = 1000\<rparr>"
  using read_mosaic_size_sentinel [of plain_czi world0]
    read_mosaic_size_sentinel [of mosaic_czi world0]
  by (simp add: plain_czi_def mosaic_czi_def plain_reader_def)

subsection \<open>The source given to the constructor\<close>




subsection \<open>Unknown keywords\<close>

text \<open>
  Claim C4. A keyword that is neither in \<open>ZISRAW_DIMS\<close> nor \<open>M\<close> is dropped: \<open>read_image\<close>,
  \<open>read_subblock_metadata\<close> and \<open>read_mosaic\<close> return the same result, after the same calls, as
  without it.
\<close>

theorem unknown_keyword_dropped:
  assumes "k \<notin> ZISRAW_DIMS" and "k \<noteq> ''M''"
  shows "read_image self (xs @ (k, v) # ys) w = read_image self (xs @ ys) w \<and>
         read_subblock_metadata self (xs @ (k, v) # ys) w =
           read_subblock_metadata self (xs @ ys) w \<and>
         read_mosaic self region scale_factor (xs @ (k, v) # ys) w =
           read_mosaic self region scale_factor (xs @ ys) w"
proof -
  have m: "get_m_index_from_kwargs self (xs @ (k, v) # ys) w' =
      get_m_index_from_kwargs self (xs @ ys) w'" for w'
    unfolding get_m_index_from_kwargs_def using map_of_drop_other [OF assms(2)] by metis
  have d: "set_dims (xs @ (k, v) # ys) pc w' = set_dims (xs @ ys) pc w'" for pc w'
    using assms(1) by (rule set_dims_drop_unknown)
  show ?thesis
    unfolding read_image_def read_subblock_metadata_def read_mosaic_def m d by simp
qed

theorem unknown_keyword_dropped_witness:
  "''Q'' \<notin> ZISRAW_DIMS \<and> ''Q'' \<noteq> ''M'' \<and>
   read_image plain_czi [(''C'', 1), (''Q'', 5), (''Z'', 2)] world0 =
     read_image plain_czi [(''C'', 1), (''Z'', 2)] world0 \<and>
   fst (read_image plain_czi [(''C'', 1), (''Q'', 5), (''Z'', 2)] world0) =
     Inr (\<lparr>shape = [1, 1], pixels = [7]\<rparr>, [(''Y'', 1), (''X'', 1)]) \<and>
   calls (snd (read_image plain_czi [(''C'', 1), (''Q'', 5), (''Z'', 2)] world0)) =
     [Call_DimCoord, Call_set_dim ''C'' 1, Call_set_dim ''Z'' 2,
      Call_read_selected [(''C'', 1), (''Z'', 2)] (- 1)]"
proof -
  have a: "''Q'' \<notin> ZISRAW_DIMS" by (simp add: ZISRAW_DIMS_def)
  have b: "''Q'' \<noteq> ''M''" by simp
  have c: "read_image plain_czi [(''C'', 1), (''Z'', 2)] world0 =
     (Inr (\<lparr>shape = [1, 1], pixels = [7]\<rparr>, [(''Y'', 1), (''X'', 1)]),
      world0\<lparr>calls := [Call_DimCoord, Call_set_dim ''C'' 1, Call_set_dim ''Z'' 2,
      Call_read_selected [(''C'', 1), (''Z'', 2)] (- 1)]\<rparr>)"
    by (simp add: read_image_def get_m_index_from_kwargs_def DimCoord_def ZISRAW_DIMS_def
        native_def world0_def plain_czi_def plain_reader_def)
  show ?thesis
    using a b c unknown_keyword_dropped [OF a b, of plain_czi "[(''C'', 1)]" 5 "[(''Z'', 2)]" world0]
    by simp
qed

subsection \<open>The cached metadata\<close>

text \<open>
  Claim C5. The metadata is meant to be parsed once and kept: a second access should return the
  same object without reading the container again. The test \<open>if not self.meta_root\<close> takes
  the truth value of the element, which is false for an element without children. On a
  container whose metadata is \<open><ImageDocument/>\<close> the second access therefore reads and parses
  again and returns a new object: two \<open>read_meta\<close> calls, references 0 and 1.
\<close>

theorem metadata_not_cached_without_children:
  "meta example_etree plain_czi world0 =
     (Inr (Some 0), plain_czi\<lparr>meta_root := Some 0\<rparr>,
      world0\<lparr>heap := [Element ''ImageDocument'' [] [] []], calls := [Call_read_meta]\<rparr>) \<and>
   meta example_etree (plain_czi\<lparr>meta_root := Some 0\<rparr>)
      (world0\<lparr>heap := [Element ''ImageDocument'' [] [] []], calls := [Call_read_meta]\<rparr>) =
     (Inr (Some 1), plain_czi\<lparr>meta_root := Some 1\<rparr>,
      world0\<lparr>heap := [Element ''ImageDocument'' [] [] [], Element ''ImageDocument'' [] [] []],
             calls := [Call_read_meta, Call_read_meta]\<rparr>)"
proof -
  have r: "reader_read_meta (reader plain_czi) = Inr ''<ImageDocument/>''"
    by (simp add: plain_czi_def plain_reader_def)
  have p: "fromstring example_etree ''<ImageDocument/>'' = Inr (Element ''ImageDocument'' [] [] [])"
    by (simp add: example_etree_def)
  have m: "metafile_out plain_czi = Str []" "meta_root plain_czi = None"
    by (simp_all add: plain_czi_def)
  show ?thesis
    by (simp add: meta_def meta_load_def meta_export_def truth_of_def deref_def alloc_def
        native_def r p m world0_def)
qed

text \<open>When the root element has children, the cached element is returned and nothing is read.\<close>

lemma meta_cached_with_children:
  assumes "truth_of w (meta_root self)" and "\<not> truthy (metafile_out self)"
  shows "meta lx self w = (Inr (meta_root self), self, w)"
  using assms by (simp add: meta_def meta_load_def meta_export_def)

subsection \<open>The export file\<close>

lemma deref_alloc: "alloc d w = (a, w') \<Longrightarrow> deref w' a = Some d"
  by (auto simp: alloc_def deref_def)

lemma truth_of_deref: "truth_of w (Some a) \<Longrightarrow> \<exists>d. deref w a = Some d"
  by (auto simp: truth_of_def split: option.splits)

lemma meta_load_Some:
  assumes "meta_load lx self w = (Inr u, self', w')"
  shows "\<exists>a d. meta_root self' = Some a \<and> deref w' a = Some d \<and> fs w' = fs w
     \<and> metafile_out self' = metafile_out self"
proof (cases "truth_of w (meta_root self)")
  case True
  then obtain a where a: "meta_root self = Some a"
    by (auto simp: truth_of_def split: option.splits)
  with True obtain d where "deref w a = Some d"
    using truth_of_deref by metis
  with True a assms show ?thesis
    by (simp add: meta_load_def)
next
  case False
  show ?thesis
  proof (cases "reader_read_meta (reader self)")
    case (Inl e)
    with False assms show ?thesis by (simp add: meta_load_def)
  next
    case (Inr meta_str)
    note s = this
    show ?thesis
    proof (cases "fromstring lx meta_str")
      case (Inl e)
      with False s assms show ?thesis by (simp add: meta_load_def)
    next
      case (Inr doc)
      with False s assms have
        "self' = self\<lparr>meta_root := Some (length (heap w))\<rparr>"
        "w' = (native Call_read_meta w)\<lparr>heap := heap w @ [doc]\<rparr>"
        by (simp_all add: meta_load_def alloc_def)
      then show ?thesis by (simp add: deref_def)
    qed
  qed
qed

lemma meta_export_file:
  assumes "meta_export lx self w = (Inr u, w')"
    and "truthy (metafile_out self)"
    and "meta_root self = Some a" and "deref w a = Some d"
  shows "node (fs w') (path_of (metafile_out self)) = Some (File (tostring lx d)) \<and>
     heap w' = heap w"
proof -
  from assms obtain fs' where
    "write_text (fs w) (path_of (metafile_out self)) (tostring lx d) = Inr fs'"
    and "w' = w\<lparr>fs := fs'\<rparr>"
    by (auto simp: meta_export_def Let_def split: sum.splits)
  then show ?thesis
    by (auto simp: write_text_def Let_def
        split: option.splits fs_node.splits if_splits)
qed

text \<open>
  With an export path set, a successful access to \<open>meta\<close> leaves at that path the text that
  \<open>etree.tostring(_, pretty_print=True)\<close> gives for the very element it returns. Whether that
  text parses back to the element is a matter of lxml.
\<close>

lemma meta_writes_returned_document:
  assumes "truthy (metafile_out self)"
    and "meta lx self w = (Inr r, self', w')"
  shows "\<exists>a d. r = Some a \<and> deref w' a = Some d \<and>
     node (fs w') (path_of (metafile_out self)) = Some (File (tostring lx d))"
proof -
  from assms(2) obtain u w1 where
    l: "meta_load lx self w = (Inr u, self', w1)"
    by (auto simp: meta_def split: prod.splits sum.splits)
  with assms(2) obtain u' where
    e: "meta_export lx self' w1 = (Inr u', w')" and r: "r = meta_root self'"
    by (auto simp: meta_def split: prod.splits sum.splits)
  from meta_load_Some [OF l] obtain a d where
    a: "meta_root self' = Some a" "deref w1 a = Some d" "metafile_out self' = metafile_out self"
    by blast
  from assms(1) a(3) have t: "truthy (metafile_out self')" by simp
  from meta_export_file [OF e t a(1) a(2)] a(3) have
    f: "node (fs w') (path_of (metafile_out self)) = Some (File (tostring lx d))"
    and h: "heap w' = heap w1" by simp_all
  from h a(2) have d: "deref w' a = Some d" by (simp add: deref_def split: if_splits)
  with r a(1) f show ?thesis by blast
qed

text \<open>
  The export on the example container; and with an export path whose directory is missing
  the access raises and nothing is written.
\<close>

lemma documented_meta:
  "meta example_etree documented_czi world0 =
    (Inr (Some 0), documented_czi\<lparr>meta_root := Some 0\<rparr>,
     \<lparr>fs = example_fs\<lparr>node := (node example_fs)(''/data/meta.xml'' \<mapsto> File pretty_text)\<rparr>,
      heap = [Element ''ImageDocument'' [] [Element ''Metadata'' [] [] []] []],
      calls = [Call_read_meta]\<rparr>)"
proof -
  have r: "reader_read_meta (reader documented_czi) =
      Inr ''<ImageDocument><Metadata/></ImageDocument>''"
    by (simp add: documented_czi_def)
  have p: "fromstring example_etree ''<ImageDocument><Metadata/></ImageDocument>'' =
      Inr (Element ''ImageDocument'' [] [Element ''Metadata'' [] [] []] [])"
    by (simp add: example_etree_def)
  have m: "meta_root documented_czi = None" "metafile_out documented_czi = Str ''/data/meta.xml''"
    by (simp_all add: documented_czi_def plain_czi_def)
  have t: "tostring example_etree (Element ''ImageDocument'' [] [Element ''Metadata'' [] [] []] []) =
      pretty_text"
    by (simp add: example_etree_def)
  have d: "dirname ''/data/meta.xml'' = ''/data''"
    by (simp add: dirname_def)
  have x: "write_text example_fs ''/data/meta.xml'' pretty_text =
      Inr (example_fs\<lparr>node := (node example_fs)(''/data/meta.xml'' \<mapsto> File pretty_text)\<rparr>)"
    by (simp add: write_text_def d example_fs_def Let_def)
  show ?thesis
    by (simp add: meta_def meta_load_def meta_export_def truth_of_def deref_def alloc_def
        native_def r p m t x world0_def)
qed

lemma write_text_missing_directory:
  "write_text example_fs ''/export/meta.xml'' pretty_text =
     Inl (FileNotFoundError ''/export/meta.xml'')"
proof -
  have d: "dirname ''/export/meta.xml'' = ''/export''"
    by (simp add: dirname_def)
  show ?thesis
    by (simp add: write_text_def d example_fs_def Let_def)
qed

subsection \<open>The defaults of \<open>read_mosaic\<close>\<close>

text \<open>\<open>read_mosaic\<close> without a region, written out.\<close>

lemma read_mosaic_region_omitted:
  "read_mosaic self None scale_factor kwargs w =
     (let sf = (case scale_factor of None \<Rightarrow> 0.1 | Some s \<Rightarrow> s);
          plane = fst (set_dims kwargs DimCoord (native Call_DimCoord w));
          w1 = snd (set_dims kwargs DimCoord (native Call_DimCoord w));
          rect = (new_IntRect (czilib self))\<lparr>rect_w := - 1, rect_h := - 1\<rparr>
      in (reader_read_mosaic (reader self) plane sf rect,
          native (Call_read_mosaic plane sf rect) (native Call_IntRect w1)))"
  by (simp add: read_mosaic_def mosaic_region_def Let_def split: prod.splits)

lemma spec_read_mosaic_shape:
  assumes "spec_read_mosaic m plane scale region = Inr img"
  shows "shape img =
     [1,
      extent m (real_of_int (rect_h (if rect_w region = - 1 \<and> rect_h region = - 1
                                     then full_bbox m else region)) * scale),
      extent m (real_of_int (rect_w (if rect_w region = - 1 \<and> rect_h region = - 1
                                     then full_bbox m else region)) * scale)]"
  using assms by (auto simp: spec_read_mosaic_def Let_def split: if_splits)

text \<open>
  Claim C7. An omitted scale factor is \<open>0.1\<close>. With the region omitted, the native reader is
  called with a rectangle whose width and height are \<open>-1\<close>, and what it returns is the result.
  With the native reader that the spec describes, the array returned for an omitted region has
  the shape \<open>(1, scaled_height, scaled_width)\<close>, the height and width of the full bounding box
  scaled by the factor.
\<close>

theorem read_mosaic_defaults:
  "read_mosaic self region None kwargs w = read_mosaic self region (Some 0.1) kwargs w \<and>
   (\<exists>plane rect.
      fst (read_mosaic self None None kwargs w) =
        reader_read_mosaic (reader self) plane 0.1 rect \<and>
      last (calls (snd (read_mosaic self None None kwargs w))) =
        Call_read_mosaic plane 0.1 rect \<and>
      rect_w rect = - 1 \<and> rect_h rect = - 1) \<and>
   (reader_read_mosaic (reader self) = spec_read_mosaic m \<and>
    fst (read_mosaic self None scale_factor kwargs w) = Inr img \<longrightarrow>
      shape img =
        [1,
         extent m (real_of_int (rect_h (full_bbox m)) *
                   (case scale_factor of None \<Rightarrow> 0.1 | Some s \<Rightarrow> s)),
         extent m (real_of_int (rect_w (full_bbox m)) *
                   (case scale_factor of None \<Rightarrow> 0.1 | Some s \<Rightarrow> s))])"
proof -
  have a: "read_mosaic self region None kwargs w = read_mosaic self region (Some 0.1) kwargs w"
    by (simp add: read_mosaic_def)
  have b: "\<exists>plane rect.
      fst (read_mosaic self None None kwargs w) =
        reader_read_mosaic (reader self) plane 0.1 rect \<and>
      last (calls (snd (read_mosaic self None None kwargs w))) =
        Call_read_mosaic plane 0.1 rect \<and>
      rect_w rect = - 1 \<and> rect_h rect = - 1"
    by (simp add: read_mosaic_region_omitted Let_def)
  have c: "shape img =
        [1,
         extent m (real_of_int (rect_h (full_bbox m)) *
                   (case scale_factor of None \<Rightarrow> 0.1 | Some s \<Rightarrow> s)),
         extent m (real_of_int (rect_w (full_bbox m)) *
                   (case scale_factor of None \<Rightarrow> 0.1 | Some s \<Rightarrow> s))]"
    if "reader_read_mosaic (reader self) = spec_read_mosaic m"
      and "fst (read_mosaic self None scale_factor kwargs w) = Inr img"
  proof -
    from that have "spec_read_mosaic m (fst (set_dims kwargs DimCoord (native Call_DimCoord w)))
        (case scale_factor of None \<Rightarrow> 0.1 | Some s \<Rightarrow> s)
        ((new_IntRect (czilib self))\<lparr>rect_w := - 1, rect_h := - 1\<rparr>) = Inr img"
      by (simp add: read_mosaic_region_omitted Let_def)
    from spec_read_mosaic_shape [OF this] show ?thesis by simp
  qed
  from a b c show ?thesis by blast
qed

theorem read_mosaic_defaults_witness:
  "reader_read_mosaic (reader tiled_czi) = spec_read_mosaic example_mosaic \<and>
   fst (read_mosaic tiled_czi None None [(''C'', 1)] world0) =
     Inr \<lparr>shape = [1, 100, 200], pixels = []\<rparr> \<and>
   fst (read_mosaic tiled_czi None (Some 0.5) [(''C'', 1)] world0) =
     Inr \<lparr>shape = [1, 500, 1000], pixels = []\<rparr> \<and>
   last (calls (snd (read_mosaic tiled_czi None None [(''C'', 1)] world0))) =
     Call_read_mosaic [(''C'', 1)] 0.1 \<lparr>rect_x = 0, rect_y = 0, rect_w = - 1, rect_h = - 1\<rparr>"
proof -
  have r: "reader_read_mosaic (reader tiled_czi) = spec_read_mosaic example_mosaic"
    by (simp add: tiled_czi_def)
  have l: "new_IntRect (czilib tiled_czi) = \<lparr>rect_x = 0, rect_y = 0, rect_w = 0, rect_h = 0\<rparr>"
    by (simp add: tiled_czi_def plain_czi_def example_lib_def)
  have a: "fst (read_mosaic tiled_czi None None [(''C'', 1)] world0) =
     Inr \<lparr>shape = [1, 100, 200], pixels = []\<rparr>"
    by (simp add: read_mosaic_region_omitted r l ZISRAW_DIMS_def DimCoord_def Let_def
        spec_read_mosaic_def example_mosaic_def)
  have b: "fst (read_mosaic tiled_czi None (Some 0.5) [(''C'', 1)] world0) =
     Inr \<lparr>shape = [1, 500, 1000], pixels = []\<rparr>"
    by (simp add: read_mosaic_region_omitted r l ZISRAW_DIMS_def DimCoord_def Let_def
        spec_read_mosaic_def example_mosaic_def)
  have c: "last (calls (snd (read_mosaic tiled_czi None None [(''C'', 1)] world0))) =
     Call_read_mosaic [(''C'', 1)] 0.1 \<lparr>rect_x = 0, rect_y = 0, rect_w = - 1, rect_h = - 1\<rparr>"
    by (simp add: read_mosaic_region_omitted l ZISRAW_DIMS_def DimCoord_def Let_def)
  show ?thesis
    using r a b c
      read_mosaic_defaults [of tiled_czi None "[(''C'', 1)]" world0 example_mosaic None
        "\<lparr>shape = [1, 100, 200], pixels = []\<rparr>"]
      read_mosaic_defaults [of tiled_czi None "[(''C'', 1)]" world0 example_mosaic "Some 0.5"
        "\<lparr>shape = [1, 500, 1000], pixels = []\<rparr>"]
    by simp
qed

subsection \<open>The bounding box of a scene\<close>

text \<open>
  Claim C8. For every scene index, given or omitted: when \<open>scene_bounding_box\<close> returns
  \<open>(x, y, w, h)\<close>, \<open>scene_height_by_width\<close> returns \<open>(h, w)\<close>, the height and the width of the
  same rectangle.
\<close>

theorem scene_height_by_width_consistent:
  "fst (scene_bounding_box self index w) = Inr (x0, y0, wd, ht) \<Longrightarrow>
   fst (scene_height_by_width self index w') = Inr (ht, wd)"
  by (auto simp: scene_bounding_box_def scene_height_by_width_def Let_def split: sum.splits)

theorem scene_height_by_width_consistent_witness:
  "fst (scene_bounding_box plain_czi None world0) = Inr (10, 20, 475, 325) \<and>
   fst (scene_height_by_width plain_czi None world0) = Inr (325, 475) \<and>
   fst (scene_bounding_box plain_czi (Some 0) world0) = Inr (10, 20, 475, 325) \<and>
   fst (scene_height_by_width plain_czi (Some 0) world0) = Inr (325, 475)"
proof -
  have a: "fst (scene_bounding_box plain_czi None world0) = Inr (10, 20, 475, 325)"
    by (simp add: scene_bounding_box_def plain_czi_def plain_reader_def)
  have b: "fst (scene_bounding_box plain_czi (Some 0) world0) = Inr (10, 20, 475, 325)"
    by (simp add: scene_bounding_box_def plain_czi_def plain_reader_def)
  show ?thesis
    using a b scene_height_by_width_consistent [OF a, of world0]
      scene_height_by_width_consistent [OF b, of world0]
    by simp
qed

subsection \<open>Validation in the constructor\<close>

text \<open>
  Claim C9. When \<open>convert_to_buffer\<close> raises (file not found, is a directory, unsupported type),
  the constructor raises the same error with the world as it was: the module has not been
  imported and no reader has been constructed.
\<close>

theorem init_validation_before_reader:
  "convert_to_buffer (fs w) file = Inl e \<Longrightarrow>
   init lib file metafile verbose w = (Inl e, w) \<and>
   new_calls w (snd (init lib file metafile verbose w)) = []"
  by (simp add: init_def new_calls_def)

theorem init_validation_before_reader_witness:
  "init example_lib (PathLike (Str ''/data/b.czi'')) (Str []) False world0 =
     (Inl (FileNotFoundError ''/data/b.czi''), world0) \<and>
   init example_lib (PathLike (Path ''/data'')) (Str []) False world0 =
     (Inl (IsADirectoryError ''/data''), world0) \<and>
   fst (init example_lib (Object ''<class 'int'>'') (Str []) False world0) =
     Inl (TypeError
       (''Reader only accepts types: [str, pathlib.Path, bytes, io.BytesIO], received: <class 'int'>'')) \<and>
   calls (snd (init example_lib (Object ''<class 'int'>'') (Str []) False world0)) = []"
proof -
  have a: "convert_to_buffer (fs world0) (PathLike (Str ''/data/b.czi'')) =
      Inl (FileNotFoundError ''/data/b.czi'')"
    by (simp add: world0_def example_fs_def)
  have b: "convert_to_buffer (fs world0) (PathLike (Path ''/data'')) =
      Inl (IsADirectoryError ''/data'')"
    by (simp add: world0_def example_fs_def is_dir_def)
  have c: "convert_to_buffer (fs world0) (Object ''<class 'int'>'') =
      Inl (TypeError
       (''Reader only accepts types: [str, pathlib.Path, bytes, io.BytesIO], received: <class 'int'>''))"
    by simp
  show ?thesis
    using init_validation_before_reader [OF a, of example_lib "Str []" False]
      init_validation_before_reader [OF b, of example_lib "Str []" False]
      init_validation_before_reader [OF c, of example_lib "Str []" False]
    by (simp add: world0_def)
qed

subsection \<open>The region of \<open>read_mosaic\<close>\<close>

lemma mosaic_region_four:
  "mosaic_region self (Some [a, b, c, d]) w =
     (Inr \<lparr>rect_x = a, rect_y = b, rect_w = c, rect_h = d\<rparr>, native Call_IntRect w)"
  by (simp add: mosaic_region_def Let_def)

text \<open>
  Claim C10. \<open>read_mosaic\<close> with a region whose length is not 4 raises \<open>AssertionError\<close>; the
  calls it has made by then construct no rectangle and reach no reader. A region of length 4 is
  handed to the native reader as \<open>x, y, w, h\<close> in the order of its elements.
\<close>

theorem read_mosaic_region_length:
  "(length region \<noteq> 4 \<longrightarrow>
      fst (read_mosaic self (Some region) scale_factor kwargs w) = Inl AssertionError \<and>
      (\<forall>c \<in> set (new_calls w (snd (read_mosaic self (Some region) scale_factor kwargs w))).
         c \<noteq> Call_IntRect \<and> \<not> is_reader_call c)) \<and>
   fst (read_mosaic self (Some [a, b, c, d]) scale_factor kwargs w) =
     reader_read_mosaic (reader self) (fst (set_dims kwargs DimCoord (native Call_DimCoord w)))
       (case scale_factor of None \<Rightarrow> 0.1 | Some s \<Rightarrow> s)
       \<lparr>rect_x = a, rect_y = b, rect_w = c, rect_h = d\<rparr>"
proof -
  have "fst (read_mosaic self (Some [a, b, c, d]) scale_factor kwargs w) =
     reader_read_mosaic (reader self) (fst (set_dims kwargs DimCoord (native Call_DimCoord w)))
       (case scale_factor of None \<Rightarrow> 0.1 | Some s \<Rightarrow> s)
       \<lparr>rect_x = a, rect_y = b, rect_w = c, rect_h = d\<rparr>"
    by (simp add: read_mosaic_def mosaic_region_four Let_def split: prod.splits)
  moreover have "fst (read_mosaic self (Some region) scale_factor kwargs w) = Inl AssertionError"
    if "length region \<noteq> 4"
    using that by (simp add: read_mosaic_def mosaic_region_def Let_def split: prod.splits)
  moreover have "\<forall>c \<in> set (new_calls w (snd (read_mosaic self (Some region) scale_factor kwargs w))).
         c \<noteq> Call_IntRect \<and> \<not> is_reader_call c"
    if "length region \<noteq> 4"
  proof -
    have "snd (read_mosaic self (Some region) scale_factor kwargs w) =
        snd (set_dims kwargs DimCoord (native Call_DimCoord w))"
      using that by (simp add: read_mosaic_def mosaic_region_def Let_def split: prod.splits)
    then show ?thesis
      by (auto simp: new_calls_def set_dims_calls)
  qed
  ultimately show ?thesis by blast
qed

theorem read_mosaic_region_length_witness:
  "length [0, 0, 100 :: int] \<noteq> 4 \<and>
   read_mosaic plain_czi (Some [0, 0, 100]) None [(''C'', 1)] world0 =
     (Inl AssertionError, world0\<lparr>calls := [Call_DimCoord, Call_set_dim ''C'' 1]\<rparr>) \<and>
   fst (read_mosaic plain_czi (Some [1, 2, 3, 4]) None [(''C'', 1)] world0) =
     reader_read_mosaic (reader plain_czi) [(''C'', 1)] 0.1
       \<lparr>rect_x = 1, rect_y = 2, rect_w = 3, rect_h = 4\<rparr>"
  using read_mosaic_region_length [of "[0, 0, 100]" plain_czi None "[(''C'', 1)]" world0 1 2 3 4]
  by (simp add: read_mosaic_def mosaic_region_def DimCoord_def ZISRAW_DIMS_def native_def
      world0_def)


end
